theory Spec2Isabelle
  imports Complex_Main "HOL-Library.Sublist"
begin

section \<open>Strings\<close>

text \<open>
  A JavaScript string is a sequence of UTF-16 code units; a code unit is modelled by its
  number. \<open>ascii\<close> turns a literal of printable ASCII characters into its code units, so
  that the texts of the source stay readable; the other characters of the source (all of
  them precomposed Latin-1 letters) are written by number, for example 226 for a-circumflex
  and 233 for e-acute.
\<close>

type_synonym jsstring = "nat list"

definition ascii :: "string \<Rightarrow> jsstring" where
  "ascii s = map of_char s"

text \<open>
  \<open>String.prototype.toLowerCase\<close> is a builtin of the language, and the Unicode tables
  it works from are not in the source. The searches of the screens therefore take the
  builtin as a parameter, \<open>lower\<close>, a function from strings to strings: what is proved of
  them holds whatever the builtin computes, and where an example needs the lower-case form
  of a particular string, that form is an assumption of the example.

  \<open>toLowerCase\<close> below is the builtin's mapping on the Basic Latin and Latin-1 Supplement
  blocks (A to Z, A-grave to O-diaeresis and O-stroke to Thorn move up by 32), every other
  code unit left as it is. It is one function that meets the assumptions made on \<open>lower\<close>,
  and it is what \<open>suggestBookCategory\<close> is given: that function only tests whether the
  lowered title contains one of seven Latin-1 keywords, and the only letter of a keyword
  that the builtin also produces from a code unit outside the two blocks is i (from
  U+0130, which becomes i followed by U+0307, and no keyword has U+0307 after an i), so
  the restriction changes none of its answers.
\<close>

definition lowerUnit :: "nat \<Rightarrow> nat" where
  "lowerUnit c =
     (if (65 \<le> c \<and> c \<le> 90) \<or> (192 \<le> c \<and> c \<le> 214) \<or> (216 \<le> c \<and> c \<le> 222)
      then c + 32 else c)"

definition toLowerCase :: "jsstring \<Rightarrow> jsstring" where
  "toLowerCase s = map lowerUnit s"

text \<open>
  \<open>s.includes(q)\<close>: whether \<open>q\<close> occurs in \<open>s\<close> as a run of consecutive code units,
  searched from position 0.
\<close>

fun startsWith :: "'a list \<Rightarrow> 'a list \<Rightarrow> bool" where
  "startsWith s [] = True"
| "startsWith [] (q # qs) = False"
| "startsWith (c # cs) (q # qs) = (c = q \<and> startsWith cs qs)"

fun str_includes :: "'a list \<Rightarrow> 'a list \<Rightarrow> bool" where
  "str_includes [] q = (q = [])"
| "str_includes (c # cs) q = (startsWith (c # cs) q \<or> str_includes cs q)"

section \<open>The data model (src/models/types.ts)\<close>

text \<open>
  An optional field (\<open>pseudonym?: string\<close>) is an \<open>option\<close>; \<open>undefined\<close> is \<open>None\<close>.
  The fields carry the name of their interface as a prefix, since \<open>id\<close>, \<open>name\<close>,
  \<open>tags\<close> and \<open>createdAt\<close> occur in several interfaces.
\<close>

record book =
  book_id :: jsstring
  book_title :: jsstring
  book_author :: jsstring
  book_pseudonym :: "jsstring option"
  book_editor :: "jsstring option"
  book_year :: "int option"
  book_coverImage :: "jsstring option"
  book_category :: "jsstring option"
  book_createdAt :: jsstring

record recipe =
  recipe_id :: jsstring
  recipe_name :: jsstring
  recipe_bookId :: "jsstring option"
  recipe_tags :: "jsstring list"
  recipe_notes :: jsstring
  recipe_isFavorite :: bool
  recipe_recipeImage :: "jsstring option"
  recipe_createdAt :: jsstring

record collection =
  collection_id :: jsstring
  collection_name :: jsstring
  collection_tags :: "jsstring list"
  collection_createdAt :: jsstring

section \<open>The store (AppProvider of the application context)\<close>

text \<open>
  The four \<open>useState\<close> cells of \<open>AppProvider\<close>, as the context exposes them.
\<close>

record store =
  books :: "book list"
  recipes :: "recipe list"
  tags :: "jsstring list"
  collections :: "collection list"

definition INITIAL_BOOKS :: "book list" where
  "INITIAL_BOOKS = [
    \<lparr>book_id = ascii ''1'', book_title = ascii ''Simplissime'',
     book_author = ascii ''Jean-Fran'' @ [231] @ ascii ''ois Mallet'', book_pseudonym = None,
     book_editor = Some (ascii ''Hachette Pratique''), book_year = Some 2015, book_coverImage = None,
     book_category = Some (ascii ''Cuisine rapide''),
     book_createdAt = ascii ''2024-01-15T00:00:00.000Z''\<rparr>,
    \<lparr>book_id = ascii ''2'', book_title = ascii ''La P'' @ [226] @ ascii ''tisserie'',
     book_author = ascii ''Christophe Felder'', book_pseudonym = None,
     book_editor = Some (ascii ''La Martini'' @ [232] @ ascii ''re''), book_year = Some 2019, book_coverImage = None,
     book_category = Some (ascii ''P'' @ [226] @ ascii ''tisserie''),
     book_createdAt = ascii ''2024-02-10T00:00:00.000Z''\<rparr>,
    \<lparr>book_id = ascii ''3'', book_title = ascii ''Veggie'',
     book_author = ascii ''Alice Hart'', book_pseudonym = None,
     book_editor = Some (ascii ''Marabout''), book_year = Some 2018, book_coverImage = None,
     book_category = Some (ascii ''V'' @ [233] @ ascii ''g'' @ [233] @ ascii ''tarien''),
     book_createdAt = ascii ''2024-03-05T00:00:00.000Z''\<rparr>,
    \<lparr>book_id = ascii ''4'', book_title = ascii ''Le Grand Livre de la Cuisine'',
     book_author = ascii ''Alain Ducasse'', book_pseudonym = None,
     book_editor = Some (ascii ''Ducasse '' @ [201] @ ascii ''dition''), book_year = Some 2020, book_coverImage = None,
     book_category = Some (ascii ''Gastronomie''),
     book_createdAt = ascii ''2024-04-20T00:00:00.000Z''\<rparr>]"

definition INITIAL_RECIPES :: "recipe list" where
  "INITIAL_RECIPES = [
    \<lparr>recipe_id = ascii ''1'', recipe_name = ascii ''Poulet r'' @ [244] @ ascii ''ti aux herbes'',
     recipe_bookId = Some (ascii ''1''),
     recipe_tags = [ascii ''plat'', ascii ''viande'', ascii ''facile''],
     recipe_notes = ascii ''Excellent ! Ajouter plus de thym la prochaine fois.'',
     recipe_isFavorite = True, recipe_recipeImage = None,
     recipe_createdAt = ascii ''2024-01-20T00:00:00.000Z''\<rparr>,
    \<lparr>recipe_id = ascii ''2'', recipe_name = ascii ''Tarte au citron meringu'' @ [233] @ ascii ''e'',
     recipe_bookId = Some (ascii ''2''),
     recipe_tags = [ascii ''dessert'', ascii ''p'' @ [226] @ ascii ''tisserie'', ascii ''agrumes''],
     recipe_notes = ascii ''La meringue doit '' @ [234] @ ascii ''tre bien dor'' @ [233] @ ascii ''e.'',
     recipe_isFavorite = True, recipe_recipeImage = None,
     recipe_createdAt = ascii ''2024-02-15T00:00:00.000Z''\<rparr>,
    \<lparr>recipe_id = ascii ''3'', recipe_name = ascii ''Buddha Bowl color'' @ [233],
     recipe_bookId = Some (ascii ''3''),
     recipe_tags = [ascii ''plat'', ascii ''v'' @ [233] @ ascii ''g'' @ [233] @ ascii ''tarien'', ascii ''sant'' @ [233]],
     recipe_notes = ascii ''Parfait pour le d'' @ [233] @ ascii ''jeuner, tr'' @ [232] @ ascii ''s frais.'',
     recipe_isFavorite = False, recipe_recipeImage = None,
     recipe_createdAt = ascii ''2024-03-10T00:00:00.000Z''\<rparr>,
    \<lparr>recipe_id = ascii ''4'', recipe_name = ascii ''Risotto aux champignons'',
     recipe_bookId = Some (ascii ''4''),
     recipe_tags = [ascii ''plat'', ascii ''italien'', ascii ''v'' @ [233] @ ascii ''g'' @ [233] @ ascii ''tarien''],
     recipe_notes = ascii ''Remuer constamment pour un r'' @ [233] @ ascii ''sultat cr'' @ [233] @ ascii ''meux.'',
     recipe_isFavorite = True, recipe_recipeImage = None,
     recipe_createdAt = ascii ''2024-04-25T00:00:00.000Z''\<rparr>,
    \<lparr>recipe_id = ascii ''5'', recipe_name = ascii ''Cr'' @ [234] @ ascii ''pes maison'',
     recipe_bookId = Some (ascii ''1''),
     recipe_tags = [ascii ''dessert'', ascii ''facile'', ascii ''gourmand''],
     recipe_notes = ascii ''Recette familiale test'' @ [233] @ ascii ''e et approuv'' @ [233] @ ascii ''e.'',
     recipe_isFavorite = False, recipe_recipeImage = None,
     recipe_createdAt = ascii ''2024-05-01T00:00:00.000Z''\<rparr>]"

definition INITIAL_TAGS :: "jsstring list" where
  "INITIAL_TAGS = [
    ascii ''plat'',
    ascii ''dessert'',
    ascii ''entr'' @ [233] @ ascii ''e'',
    ascii ''viande'',
    ascii ''poisson'',
    ascii ''v'' @ [233] @ ascii ''g'' @ [233] @ ascii ''tarien'',
    ascii ''p'' @ [226] @ ascii ''tisserie'',
    ascii ''facile'',
    ascii ''rapide'',
    ascii ''sant'' @ [233],
    ascii ''gourmand'',
    ascii ''italien'',
    ascii ''fran'' @ [231] @ ascii ''ais'',
    ascii ''agrumes'']"

definition INITIAL_COLLECTIONS :: "collection list" where
  "INITIAL_COLLECTIONS = [
    \<lparr>collection_id = ascii ''1'', collection_name = ascii ''Mes Favoris'',
     collection_tags = [ascii ''favoris''],
     collection_createdAt = ascii ''2024-01-01T00:00:00.000Z''\<rparr>,
    \<lparr>collection_id = ascii ''2'', collection_name = ascii ''Repas Rapides'',
     collection_tags = [ascii ''facile'', ascii ''rapide''],
     collection_createdAt = ascii ''2024-01-05T00:00:00.000Z''\<rparr>]"


definition initial_store :: store where
  "initial_store =
     \<lparr>books = INITIAL_BOOKS, recipes = INITIAL_RECIPES, tags = INITIAL_TAGS,
      collections = INITIAL_COLLECTIONS\<rparr>"

subsection \<open>State setters\<close>

text \<open>
  Every operation of the store calls the setters with an updater function
  (\<open>setBooks(prevBooks => ...)\<close>). A setter does not run its updater: React queues it and,
  when the component next renders, applies the queued updaters in order, each to the state
  the previous one left. (The application runs on React Native 0.81.5 with Expo 54, where
  all updates are batched.) An operation is therefore modelled by the queue of updates it
  leaves, and \<open>render\<close> is the render that applies a queue. What an operation reads outside
  an updater it reads from the state of the render that created its closure.
\<close>

datatype update =
    setBooks "book list \<Rightarrow> book list"
  | setRecipes "recipe list \<Rightarrow> recipe list"
  | setTags "jsstring list \<Rightarrow> jsstring list"
  | setCollections "collection list \<Rightarrow> collection list"

fun apply_update :: "update \<Rightarrow> store \<Rightarrow> store" where
  "apply_update (setBooks f) s = s\<lparr>books := f (books s)\<rparr>"
| "apply_update (setRecipes f) s = s\<lparr>recipes := f (recipes s)\<rparr>"
| "apply_update (setTags f) s = s\<lparr>tags := f (tags s)\<rparr>"
| "apply_update (setCollections f) s = s\<lparr>collections := f (collections s)\<rparr>"

definition render :: "update list \<Rightarrow> store \<Rightarrow> store" where
  "render queue s = fold apply_update queue s"

subsection \<open>Books\<close>

definition addBook :: "book \<Rightarrow> update list" where
  "addBook book = [setBooks (\<lambda>prevBooks. prevBooks @ [book])]"

definition updateBook :: "book \<Rightarrow> update list" where
  "updateBook book =
     [setBooks (\<lambda>prevBooks. map (\<lambda>b. if book_id b = book_id book then book else b) prevBooks)]"

text \<open>
  \<open>deleteBook\<close> counts in a local variable, \<open>detachedCount\<close>, which the updater it hands to
  \<open>setRecipes\<close> increments once for every recipe it detaches. \<open>detachOne\<close> is the callback
  of that updater's \<open>map\<close> and \<open>mapCounting\<close> the \<open>map\<close> itself, the variable passed
  through from left to right; \<open>deleteBook_updater\<close> is the updater, from the previous
  recipes and the variable to the next recipes and the variable.
\<close>

definition detachOne :: "jsstring \<Rightarrow> recipe \<Rightarrow> nat \<Rightarrow> recipe \<times> nat" where
  "detachOne bookId r detachedCount =
     (if recipe_bookId r = Some bookId
      then (r\<lparr>recipe_bookId := None\<rparr>, detachedCount + 1)
      else (r, detachedCount))"

fun mapCounting :: "('a \<Rightarrow> nat \<Rightarrow> 'b \<times> nat) \<Rightarrow> 'a list \<Rightarrow> nat \<Rightarrow> 'b list \<times> nat" where
  "mapCounting f [] n = ([], n)"
| "mapCounting f (x # xs) n =
     (case f x n of (y, n') \<Rightarrow>
        (case mapCounting f xs n' of (ys, n'') \<Rightarrow> (y # ys, n'')))"

definition deleteBook_updater :: "jsstring \<Rightarrow> recipe list \<Rightarrow> nat \<Rightarrow> recipe list \<times> nat" where
  "deleteBook_updater bookId prevRecipes detachedCount =
     mapCounting (detachOne bookId) prevRecipes detachedCount"

text \<open>
  The body of \<open>deleteBook\<close>, statement by statement: queue the books updater, set
  \<open>detachedCount\<close> to 0, queue the recipes updater, return \<open>detachedCount\<close>. The result is
  the queue and the returned number. The function has no \<open>await\<close>, so it returns before
  any render: the value it returns is the one \<open>detachedCount\<close> holds when no updater has
  run yet.
\<close>

definition deleteBook :: "jsstring \<Rightarrow> update list \<times> nat" where
  "deleteBook bookId =
     (let queue1 = [setBooks (\<lambda>prevBooks. filter (\<lambda>b. book_id b \<noteq> bookId) prevBooks)];
          detachedCount = 0;
          queue2 = queue1 @
            [setRecipes (\<lambda>prevRecipes. fst (deleteBook_updater bookId prevRecipes detachedCount))]
      in (queue2, detachedCount))"

subsection \<open>Recipes and tags\<close>

text \<open>
  \<open>addRecipe\<close>, \<open>updateRecipe\<close> and \<open>addTag\<close> test \<open>tags.includes(tag)\<close> on the
  \<open>tags\<close> of their closure: \<open>snap\<close> is the state of the render that created the closure.
\<close>

definition addRecipe :: "store \<Rightarrow> recipe \<Rightarrow> update list" where
  "addRecipe snap recipe =
     (let queue1 = [setRecipes (\<lambda>prevRecipes. prevRecipes @ [recipe])];
          newTags = filter (\<lambda>tag. tag \<notin> set (tags snap)) (recipe_tags recipe)
      in if length newTags > 0
         then queue1 @ [setTags (\<lambda>prevTags. prevTags @ newTags)]
         else queue1)"

definition updateRecipe :: "store \<Rightarrow> recipe \<Rightarrow> update list" where
  "updateRecipe snap recipe =
     (let queue1 = [setRecipes (\<lambda>prevRecipes.
            map (\<lambda>r. if recipe_id r = recipe_id recipe then recipe else r) prevRecipes)];
          newTags = filter (\<lambda>tag. tag \<notin> set (tags snap)) (recipe_tags recipe)
      in if length newTags > 0
         then queue1 @ [setTags (\<lambda>prevTags. prevTags @ newTags)]
         else queue1)"

definition deleteRecipe :: "jsstring \<Rightarrow> update list" where
  "deleteRecipe recipeId =
     [setRecipes (\<lambda>prevRecipes. filter (\<lambda>r. recipe_id r \<noteq> recipeId) prevRecipes)]"

definition toggleFavorite :: "jsstring \<Rightarrow> update list" where
  "toggleFavorite recipeId =
     [setRecipes (\<lambda>prevRecipes.
        map (\<lambda>r. if recipe_id r = recipeId
                 then r\<lparr>recipe_isFavorite := \<not> recipe_isFavorite r\<rparr> else r) prevRecipes)]"

definition addTag :: "store \<Rightarrow> jsstring \<Rightarrow> update list" where
  "addTag snap tag =
     (if tag \<notin> set (tags snap) then [setTags (\<lambda>prevTags. prevTags @ [tag])] else [])"

subsection \<open>Collections\<close>

definition addCollection :: "collection \<Rightarrow> update list" where
  "addCollection collection = [setCollections (\<lambda>prevCollections. prevCollections @ [collection])]"

definition updateCollection :: "collection \<Rightarrow> update list" where
  "updateCollection collection =
     [setCollections (\<lambda>prevCollections.
        map (\<lambda>c. if collection_id c = collection_id collection then collection else c)
          prevCollections)]"

definition deleteCollection :: "jsstring \<Rightarrow> update list" where
  "deleteCollection collectionId =
     [setCollections (\<lambda>prevCollections.
        filter (\<lambda>c. collection_id c \<noteq> collectionId) prevCollections)]"

subsection \<open>Category suggestion\<close>

record CategorySuggestion =
  category :: jsstring
  confidence :: rat

text \<open>
  \<open>Array.prototype.sort\<close> with a comparator is a stable sort: \<open>a\<close> comes after \<open>b\<close> when
  \<open>cmp a b > 0\<close>, and elements that compare equal keep their order. The confidences are
  the decimal constants of the source, compared exactly.
\<close>

fun insertBy :: "('a \<Rightarrow> 'a \<Rightarrow> rat) \<Rightarrow> 'a \<Rightarrow> 'a list \<Rightarrow> 'a list" where
  "insertBy cmp x [] = [x]"
| "insertBy cmp x (y # ys) = (if cmp x y \<le> 0 then x # y # ys else y # insertBy cmp x ys)"

definition jsSort :: "('a \<Rightarrow> 'a \<Rightarrow> rat) \<Rightarrow> 'a list \<Rightarrow> 'a list" where
  "jsSort cmp xs = foldr (insertBy cmp) xs []"

definition suggestBookCategory ::
    "jsstring \<Rightarrow> jsstring \<Rightarrow> jsstring option \<Rightarrow> CategorySuggestion list" where
  "suggestBookCategory title author pseudonym =
     (let suggestions =
            [\<lparr>category = ascii ''Cuisine g'' @ [233] @ ascii ''n'' @ [233] @ ascii ''rale'',
              confidence = 0.7\<rparr>,
             \<lparr>category = ascii ''P'' @ [226] @ ascii ''tisserie'', confidence = 0.5\<rparr>,
             \<lparr>category = ascii ''Gastronomie'', confidence = 0.4\<rparr>];
          lowerTitle = toLowerCase title;
          suggestions' =
            (if str_includes lowerTitle (ascii ''p'' @ [226] @ ascii ''tisserie'') \<or>
                str_includes lowerTitle (ascii ''dessert'') \<or>
                str_includes lowerTitle (ascii ''g'' @ [226] @ ascii ''teau'')
             then suggestions[0 := \<lparr>category = ascii ''P'' @ [226] @ ascii ''tisserie'',
                                     confidence = 0.9\<rparr>]
             else if str_includes lowerTitle (ascii ''v'' @ [233] @ ascii ''g'' @ [233]) \<or>
                     str_includes lowerTitle (ascii ''vegan'')
             then suggestions[0 := \<lparr>category = ascii ''V'' @ [233] @ ascii ''g'' @ [233] @
                                       ascii ''tarien'', confidence = 0.9\<rparr>]
             else if str_includes lowerTitle (ascii ''rapide'') \<or>
                     str_includes lowerTitle (ascii ''simple'')
             then suggestions[0 := \<lparr>category = ascii ''Cuisine rapide'', confidence = 0.9\<rparr>]
             else suggestions)
      in jsSort (\<lambda>a b. confidence b - confidence a) suggestions')"

section \<open>Queries of the screens\<close>




text \<open>\<open>filteredRecipes\<close> of the collection detail screen: the members of a collection.\<close>

definition collection_filteredRecipes :: "collection \<Rightarrow> recipe list \<Rightarrow> recipe list" where
  "collection_filteredRecipes collection rs =
     filter (\<lambda>recipe. list_ex (\<lambda>tag. tag \<in> set (collection_tags collection)) (recipe_tags recipe)) rs"

section \<open>The properties' vocabulary\<close>

text \<open>
  This definition follows the wording of the specification, not the code: the query is a
  case-insensitive substring of a text when, both in the lower case the builtin gives
  them, the query occurs in the text as a run of consecutive code units.
\<close>

definition ci_substring :: "(jsstring \<Rightarrow> jsstring) \<Rightarrow> jsstring \<Rightarrow> jsstring \<Rightarrow> bool" where
  "ci_substring lower q s \<longleftrightarrow> sublist (lower q) (lower s)"

text \<open>
  These two definitions follow the wording of the specification too: the baseline list of
  suggestions, and the baseline with slot 0 overwritten by a category of confidence 0.90.
\<close>

definition baseline :: "CategorySuggestion list" where
  "baseline =
     [\<lparr>category = ascii ''Cuisine g'' @ [233] @ ascii ''n'' @ [233] @ ascii ''rale'', confidence = 0.7\<rparr>,
      \<lparr>category = ascii ''P'' @ [226] @ ascii ''tisserie'', confidence = 0.5\<rparr>,
      \<lparr>category = ascii ''Gastronomie'', confidence = 0.4\<rparr>]"

definition override :: "jsstring \<Rightarrow> CategorySuggestion list" where
  "override cat = baseline[0 := \<lparr>category = cat, confidence = 0.9\<rparr>]"

text \<open>
  A sequence of add operations, each called from the render that follows the one before:
  \<open>addRecipe\<close> reads the tags of the state it is called in.
\<close>

datatype add_op = AddBook book | AddRecipe recipe | AddCollection collection

fun run_add :: "add_op \<Rightarrow> store \<Rightarrow> store" where
  "run_add (AddBook b) s = render (addBook b) s"
| "run_add (AddRecipe r) s = render (addRecipe s r) s"
| "run_add (AddCollection c) s = render (addCollection c) s"

definition run_adds :: "add_op list \<Rightarrow> store \<Rightarrow> store" where
  "run_adds ops s = fold run_add ops s"

text \<open>
  No two records of one kind share an id; and an add operation brings an id that no record
  of its kind has yet, along a sequence of them.
\<close>

definition unique_ids :: "store \<Rightarrow> bool" where
  "unique_ids s \<longleftrightarrow>
     distinct (map book_id (books s)) \<and> distinct (map recipe_id (recipes s)) \<and>
     distinct (map collection_id (collections s))"

fun fresh_id :: "add_op \<Rightarrow> store \<Rightarrow> bool" where
  "fresh_id (AddBook b) s = (book_id b \<notin> set (map book_id (books s)))"
| "fresh_id (AddRecipe r) s = (recipe_id r \<notin> set (map recipe_id (recipes s)))"
| "fresh_id (AddCollection c) s = (collection_id c \<notin> set (map collection_id (collections s)))"

fun fresh_ids :: "add_op list \<Rightarrow> store \<Rightarrow> bool" where
  "fresh_ids [] s = True"
| "fresh_ids (a # ops) s = (fresh_id a s \<and> fresh_ids ops (run_add a s))"

text \<open>Inputs of the examples.\<close>

definition ghost_recipe :: recipe where
  "ghost_recipe =
     \<lparr>recipe_id = ascii ''99'', recipe_name = ascii ''Soupe'', recipe_bookId = None,
      recipe_tags = [ascii ''hiver''], recipe_notes = [], recipe_isFavorite = False,
      recipe_recipeImage = None, recipe_createdAt = ascii ''2024-06-01T00:00:00.000Z''\<rparr>"

definition ghost_collection :: collection where
  "ghost_collection =
     \<lparr>collection_id = ascii ''99'', collection_name = ascii ''Soupes'',
      collection_tags = [ascii ''hiver''],
      collection_createdAt = ascii ''2024-06-01T00:00:00.000Z''\<rparr>"

definition duplicate_book :: book where
  "duplicate_book =
     \<lparr>book_id = ascii ''1'', book_title = ascii ''Desserts'', book_author = ascii ''Anne'',
      book_pseudonym = None, book_editor = None, book_year = None, book_coverImage = None,
      book_category = None, book_createdAt = ascii ''2024-06-01T00:00:00.000Z''\<rparr>"

text \<open>
  A store with a dangling reference: from the initial store, \<open>addRecipe\<close> of a recipe whose
  \<open>bookId\<close> is 9, the id of no book.
\<close>

definition orphan_recipe :: recipe where
  "orphan_recipe =
     \<lparr>recipe_id = ascii ''6'', recipe_name = ascii ''Soupe'', recipe_bookId = Some (ascii ''9''),
      recipe_tags = [ascii ''plat''], recipe_notes = [], recipe_isFavorite = False,
      recipe_recipeImage = None, recipe_createdAt = ascii ''2024-06-01T00:00:00.000Z''\<rparr>"

definition orphan_store :: store where
  "orphan_store = render (addRecipe initial_store orphan_recipe) initial_store"

section \<open>Properties\<close>

subsection \<open>Auxiliary facts\<close>

lemma startsWith_prefix: "startsWith s q \<longleftrightarrow> prefix q s"
  by (induction s q rule: startsWith.induct) auto

lemma str_includes_sublist: "str_includes s q \<longleftrightarrow> sublist q s"
proof (induction s)
  case Nil
  show ?case by simp
next
  case (Cons c cs)
  show ?case
    by (simp add: Cons.IH startsWith_prefix sublist_Cons_right del: startsWith.simps)
qed

lemma mapCounting_detachOne:
  "mapCounting (detachOne bookId) rs n =
     (map (\<lambda>r. if recipe_bookId r = Some bookId then r\<lparr>recipe_bookId := None\<rparr> else r) rs,
      n + length (filter (\<lambda>r. recipe_bookId r = Some bookId) rs))"
  by (induction rs arbitrary: n) (simp_all add: detachOne_def)

lemma render_deleteBook:
  "render (fst (deleteBook bookId)) s =
     s\<lparr>books := filter (\<lambda>b. book_id b \<noteq> bookId) (books s),
       recipes := map (\<lambda>r. if recipe_bookId r = Some bookId
                            then r\<lparr>recipe_bookId := None\<rparr> else r) (recipes s)\<rparr>"
  by (simp add: deleteBook_def render_def deleteBook_updater_def mapCounting_detachOne)

lemma render_addRecipe:
  "render (addRecipe snap recipe) s =
     s\<lparr>recipes := recipes s @ [recipe],
       tags := tags s @ filter (\<lambda>tag. tag \<notin> set (tags snap)) (recipe_tags recipe)\<rparr>"
  by (simp add: addRecipe_def render_def Let_def)

lemma render_updateRecipe:
  "render (updateRecipe snap recipe) s =
     s\<lparr>recipes := map (\<lambda>r. if recipe_id r = recipe_id recipe then recipe else r) (recipes s),
       tags := tags s @ filter (\<lambda>tag. tag \<notin> set (tags snap)) (recipe_tags recipe)\<rparr>"
  by (simp add: updateRecipe_def render_def Let_def)

subsection \<open>Deleting a book: what it leaves alone\<close>

text \<open>
  Claim C10. For every book id, \<open>deleteBook(bookId)\<close> changes no recipe field other than
  \<open>bookId\<close>: once its updates are rendered, the recipes are the same in number and order,
  every recipe keeps its id, name, tags, notes, favorite flag, image and creation date, a
  recipe whose \<open>bookId\<close> is not the deleted id is unchanged as a whole, and the tag
  registry and the collections are unchanged.
\<close>

theorem deleteBook_frame:
  "list_all2 (\<lambda>r r'.
       recipe_id r' = recipe_id r \<and> recipe_name r' = recipe_name r \<and>
       recipe_tags r' = recipe_tags r \<and> recipe_notes r' = recipe_notes r \<and>
       recipe_isFavorite r' = recipe_isFavorite r \<and>
       recipe_recipeImage r' = recipe_recipeImage r \<and>
       recipe_createdAt r' = recipe_createdAt r \<and>
       (recipe_bookId r \<noteq> Some bookId \<longrightarrow> r' = r))
     (recipes s) (recipes (render (fst (deleteBook bookId)) s)) \<and>
   tags (render (fst (deleteBook bookId)) s) = tags s \<and>
   collections (render (fst (deleteBook bookId)) s) = collections s"
  by (simp add: render_deleteBook list_all2_map2 list_all2_same)

theorem deleteBook_frame_witness:
  "recipe_bookId (recipes initial_store ! 1) \<noteq> Some (ascii ''1'') \<and>
   recipes (render (fst (deleteBook (ascii ''1''))) initial_store) ! 1 = recipes initial_store ! 1 \<and>
   recipe_name (recipes (render (fst (deleteBook (ascii ''1''))) initial_store) ! 0) =
     recipe_name (recipes initial_store ! 0) \<and>
   tags (render (fst (deleteBook (ascii ''1''))) initial_store) = INITIAL_TAGS"
proof -
  have len: "1 < length (recipes initial_store)" "0 < length (recipes initial_store)"
    by (simp_all add: initial_store_def INITIAL_RECIPES_def)
  have other: "recipe_bookId (recipes initial_store ! 1) \<noteq> Some (ascii ''1'')"
    by (simp add: initial_store_def INITIAL_RECIPES_def ascii_def)
  have init_tags: "tags initial_store = INITIAL_TAGS"
    by (simp add: initial_store_def)
  note frame = deleteBook_frame [of "ascii ''1''" initial_store]
  from frame have all2: "list_all2 (\<lambda>r r'.
       recipe_id r' = recipe_id r \<and> recipe_name r' = recipe_name r \<and>
       recipe_tags r' = recipe_tags r \<and> recipe_notes r' = recipe_notes r \<and>
       recipe_isFavorite r' = recipe_isFavorite r \<and>
       recipe_recipeImage r' = recipe_recipeImage r \<and>
       recipe_createdAt r' = recipe_createdAt r \<and>
       (recipe_bookId r \<noteq> Some (ascii ''1'') \<longrightarrow> r' = r))
     (recipes initial_store) (recipes (render (fst (deleteBook (ascii ''1''))) initial_store))"
    by (rule conjunct1)
  from list_all2_nthD [OF all2 len(1)] other
  have one: "recipes (render (fst (deleteBook (ascii ''1''))) initial_store) ! 1 =
      recipes initial_store ! 1"
    by blast
  from list_all2_nthD [OF all2 len(2)]
  have zero: "recipe_name (recipes (render (fst (deleteBook (ascii ''1''))) initial_store) ! 0) =
     recipe_name (recipes initial_store ! 0)"
    by blast
  from frame init_tags
  have tg: "tags (render (fst (deleteBook (ascii ''1''))) initial_store) = INITIAL_TAGS"
    by simp
  from other one zero tg show ?thesis by blast
qed

subsection \<open>Favorites\<close>

text \<open>
  Claim C8. For every store state and every recipe id, \<open>toggleFavorite(id)\<close> called twice
  restores the recipes, and with them the whole state: whether a render comes between the
  two calls or both updates are applied by one render. When no recipe has the id, a single
  call already leaves the state as it is.
\<close>

theorem toggleFavorite_twice:
  "render (toggleFavorite recipeId) (render (toggleFavorite recipeId) s) = s \<and>
   render (toggleFavorite recipeId @ toggleFavorite recipeId) s = s \<and>
   ((\<forall>r \<in> set (recipes s). recipe_id r \<noteq> recipeId) \<longrightarrow>
      render (toggleFavorite recipeId) s = s)"
proof -
  have twice:
    "map ((\<lambda>r. if recipe_id r = recipeId
                then r\<lparr>recipe_isFavorite := \<not> recipe_isFavorite r\<rparr> else r) \<circ>
          (\<lambda>r. if recipe_id r = recipeId
                then r\<lparr>recipe_isFavorite := \<not> recipe_isFavorite r\<rparr> else r)) rs = rs"
    for rs :: "recipe list"
    by (induction rs) simp_all
  have none: "(\<forall>r \<in> set rs. recipe_id r \<noteq> recipeId) \<Longrightarrow>
     map (\<lambda>r. if recipe_id r = recipeId
               then r\<lparr>recipe_isFavorite := \<not> recipe_isFavorite r\<rparr> else r) rs = rs"
    for rs :: "recipe list"
    by (induction rs) simp_all
  show ?thesis
    by (simp add: toggleFavorite_def render_def twice none)
qed

theorem toggleFavorite_twice_witness:
  "render (toggleFavorite (ascii ''3'')) (render (toggleFavorite (ascii ''3'')) initial_store) =
     initial_store \<and>
   list_all (\<lambda>r. recipe_id r \<noteq> ascii ''99'') (recipes initial_store) \<and>
   render (toggleFavorite (ascii ''99'')) initial_store = initial_store"
proof -
  have none: "list_all (\<lambda>r. recipe_id r \<noteq> ascii ''99'') (recipes initial_store)"
    by (simp add: initial_store_def INITIAL_RECIPES_def ascii_def)
  then have "\<forall>r \<in> set (recipes initial_store). recipe_id r \<noteq> ascii ''99''"
    by (simp add: list_all_iff)
  with toggleFavorite_twice [of "ascii ''99''" initial_store]
  have noop: "render (toggleFavorite (ascii ''99'')) initial_store = initial_store"
    by blast
  from toggleFavorite_twice [of "ascii ''3''" initial_store] none noop
  show ?thesis by blast
qed

subsection \<open>The tag registry\<close>

text \<open>
  The registry only grows also when the closure is out of date (two calls from one render):
  every updater on the registry appends, so the tags a closure has seen are still there.
\<close>

lemma tags_grow_stale:
  assumes "set (tags snap) \<subseteq> set (tags s)"
  shows "set (tags s) \<union> set (recipe_tags recipe) \<subseteq>
           set (tags (render (addRecipe snap recipe) s))"
    and "set (tags s) \<union> set (recipe_tags recipe) \<subseteq>
           set (tags (render (updateRecipe snap recipe) s))"
  using assms by (auto simp: render_addRecipe render_updateRecipe)

text \<open>
  Claim C4. For every recipe and every prior store state, the tag registry after
  \<open>addRecipe\<close> or \<open>updateRecipe\<close> holds every tag it held before and every tag of the
  recipe; the registry before is even an initial segment of the registry after, so no tag
  is removed or moved.
\<close>

theorem tag_registry_monotone:
  "set (tags s) \<union> set (recipe_tags recipe) \<subseteq> set (tags (render (addRecipe s recipe) s)) \<and>
   set (tags s) \<union> set (recipe_tags recipe) \<subseteq> set (tags (render (updateRecipe s recipe) s)) \<and>
   prefix (tags s) (tags (render (addRecipe s recipe) s)) \<and>
   prefix (tags s) (tags (render (updateRecipe s recipe) s))"
  by (auto simp: render_addRecipe render_updateRecipe)

subsection \<open>Membership of a collection\<close>

text \<open>
  Claim C3. For every collection and every list of recipes, the recipes the collection
  shows are exactly those with at least one tag among the collection's tags, in the order
  of the list; so for recipes tagged a, b and a with b and a collection with the tags a and
  b, all three recipes are members.
\<close>

theorem collection_membership:
  "collection_filteredRecipes c rs =
     filter (\<lambda>r. set (recipe_tags r) \<inter> set (collection_tags c) \<noteq> {}) rs \<and>
   set (collection_filteredRecipes c rs) =
     {r \<in> set rs. set (recipe_tags r) \<inter> set (collection_tags c) \<noteq> {}} \<and>
   collection_filteredRecipes (c\<lparr>collection_tags := [ascii ''a'', ascii ''b'']\<rparr>)
     [r1\<lparr>recipe_tags := [ascii ''a'']\<rparr>, r2\<lparr>recipe_tags := [ascii ''b'']\<rparr>,
      r3\<lparr>recipe_tags := [ascii ''a'', ascii ''b'']\<rparr>] =
     [r1\<lparr>recipe_tags := [ascii ''a'']\<rparr>, r2\<lparr>recipe_tags := [ascii ''b'']\<rparr>,
      r3\<lparr>recipe_tags := [ascii ''a'', ascii ''b'']\<rparr>]"
proof (intro conjI)
  have pred: "list_ex (\<lambda>tag. tag \<in> set (collection_tags c)) (recipe_tags r) \<longleftrightarrow>
      set (recipe_tags r) \<inter> set (collection_tags c) \<noteq> {}" for r :: recipe
    by (auto simp: list_ex_iff)
  show list_eq: "collection_filteredRecipes c rs =
     filter (\<lambda>r. set (recipe_tags r) \<inter> set (collection_tags c) \<noteq> {}) rs"
    by (simp add: collection_filteredRecipes_def pred)
  show "set (collection_filteredRecipes c rs) =
     {r \<in> set rs. set (recipe_tags r) \<inter> set (collection_tags c) \<noteq> {}}"
    by (simp add: list_eq)
  show "collection_filteredRecipes (c\<lparr>collection_tags := [ascii ''a'', ascii ''b'']\<rparr>)
     [r1\<lparr>recipe_tags := [ascii ''a'']\<rparr>, r2\<lparr>recipe_tags := [ascii ''b'']\<rparr>,
      r3\<lparr>recipe_tags := [ascii ''a'', ascii ''b'']\<rparr>] =
     [r1\<lparr>recipe_tags := [ascii ''a'']\<rparr>, r2\<lparr>recipe_tags := [ascii ''b'']\<rparr>,
      r3\<lparr>recipe_tags := [ascii ''a'', ascii ''b'']\<rparr>]"
    by (simp add: collection_filteredRecipes_def)
qed

subsection \<open>Deleting a book: the cascade and the returned count\<close>

text \<open>
  Once the updates of \<open>deleteBook\<close> are rendered, no book has the id, no recipe refers to
  it, and the updater has counted in \<open>detachedCount\<close> the recipes that referred to it.
\<close>

lemma deleteBook_cascade:
  "bookId \<notin> set (map book_id (books (render (fst (deleteBook bookId)) s))) \<and>
   Some bookId \<notin> set (map recipe_bookId (recipes (render (fst (deleteBook bookId)) s))) \<and>
   snd (deleteBook_updater bookId (recipes s) 0) =
     length (filter (\<lambda>r. recipe_bookId r = Some bookId) (recipes s))"
  by (auto simp: render_deleteBook deleteBook_updater_def mapCounting_detachOne split: if_splits)

text \<open>But the number \<open>deleteBook\<close> returns was read before that, and is always 0.\<close>

lemma deleteBook_returned: "snd (deleteBook bookId) = 0"
  by (simp add: deleteBook_def)

text \<open>
  Claim C1 says that, for a book with N recipes referring to it, \<open>deleteBook\<close> removes the
  book, clears \<open>bookId\<close> on those N recipes and returns N. The first two hold
  (\<open>deleteBook_cascade\<close>). The third does not: in the initial store two recipes refer to
  book 1, \<open>deleteBook\<close> of that id returns 0, and \<open>detachedCount\<close> becomes 2 only when the
  render runs the updater.
\<close>

theorem deleteBook_returns_zero:
  "length (filter (\<lambda>r. recipe_bookId r = Some (ascii ''1'')) (recipes initial_store)) = 2 \<and>
   snd (deleteBook (ascii ''1'')) = 0 \<and>
   snd (deleteBook_updater (ascii ''1'') (recipes initial_store) 0) = 2"
proof -
  have two: "length (filter (\<lambda>r. recipe_bookId r = Some (ascii ''1'')) (recipes initial_store)) = 2"
    by (simp add: initial_store_def INITIAL_RECIPES_def ascii_def)
  have zero: "snd (deleteBook (ascii ''1'')) = 0"
    by (simp add: deleteBook_def)
  have later: "snd (deleteBook_updater (ascii ''1'') (recipes initial_store) 0) = 2"
    by (simp add: deleteBook_updater_def mapCounting_detachOne two)
  from two zero later show ?thesis by simp
qed

subsection \<open>Ids that match no record\<close>

lemma map_id_noop:
  "(\<forall>x \<in> set xs. key x \<noteq> k) \<Longrightarrow> map (\<lambda>x. if key x = k then y else x) xs = xs"
  by (induction xs) simp_all

lemma filter_id_noop:
  "(\<forall>x \<in> set xs. key x \<noteq> k) \<Longrightarrow> filter (\<lambda>x. key x \<noteq> k) xs = xs"
  by (induction xs) simp_all

lemma toggle_noop:
  "(\<forall>r \<in> set rs. recipe_id r \<noteq> k) \<Longrightarrow>
     map (\<lambda>r. if recipe_id r = k then r\<lparr>recipe_isFavorite := \<not> recipe_isFavorite r\<rparr> else r) rs = rs"
  by (induction rs) simp_all

lemma detach_noop_iff:
  "map (\<lambda>r. if recipe_bookId r = Some k then r\<lparr>recipe_bookId := None\<rparr> else r) rs = rs \<longleftrightarrow>
     (\<forall>r \<in> set rs. recipe_bookId r \<noteq> Some k)"
proof (induction rs)
  case Nil
  show ?case by simp
next
  case (Cons r rs)
  have "r\<lparr>recipe_bookId := None\<rparr> \<noteq> r" if "recipe_bookId r = Some k"
  proof
    assume "r\<lparr>recipe_bookId := None\<rparr> = r"
    then have "recipe_bookId (r\<lparr>recipe_bookId := None\<rparr>) = recipe_bookId r" by simp
    with that show False by simp
  qed
  with Cons.IH show ?case by auto
qed

lemma store_tags_eq: "s\<lparr>tags := ts\<rparr> = s \<longleftrightarrow> ts = tags s"
proof
  assume "s\<lparr>tags := ts\<rparr> = s"
  then have "tags (s\<lparr>tags := ts\<rparr>) = tags s" by simp
  then show "ts = tags s" by simp
qed simp

lemma store_recipes_eq: "s\<lparr>recipes := rs\<rparr> = s \<longleftrightarrow> rs = recipes s"
proof
  assume "s\<lparr>recipes := rs\<rparr> = s"
  then have "recipes (s\<lparr>recipes := rs\<rparr>) = recipes s" by simp
  then show "rs = recipes s" by simp
qed simp

text \<open>
  Claim C2, as amended. For every store state and every id that no record of the targeted
  kind has: \<open>updateBook\<close>, \<open>deleteRecipe\<close>, \<open>toggleFavorite\<close>, \<open>updateCollection\<close> and
  \<open>deleteCollection\<close> leave the whole state unchanged. \<open>updateRecipe\<close> leaves books,
  recipes and collections unchanged and appends to the tag registry the tags of its
  argument that the registry does not hold; it leaves the state unchanged exactly when
  there is no such tag. \<open>deleteBook\<close> leaves books, tags and collections unchanged and
  clears \<open>bookId\<close> on the recipes that refer to the id; it leaves the state unchanged
  exactly when no recipe does.
\<close>

theorem not_found_effects:
  "((\<forall>b \<in> set (books s). book_id b \<noteq> book_id book) \<longrightarrow> render (updateBook book) s = s) \<and>
   ((\<forall>r \<in> set (recipes s). recipe_id r \<noteq> recipeId) \<longrightarrow>
      render (deleteRecipe recipeId) s = s \<and> render (toggleFavorite recipeId) s = s) \<and>
   ((\<forall>c \<in> set (collections s). collection_id c \<noteq> collection_id coll) \<longrightarrow>
      render (updateCollection coll) s = s) \<and>
   ((\<forall>c \<in> set (collections s). collection_id c \<noteq> collectionId) \<longrightarrow>
      render (deleteCollection collectionId) s = s) \<and>
   ((\<forall>r \<in> set (recipes s). recipe_id r \<noteq> recipe_id recipe) \<longrightarrow>
      render (updateRecipe s recipe) s =
        s\<lparr>tags := tags s @ filter (\<lambda>tag. tag \<notin> set (tags s)) (recipe_tags recipe)\<rparr> \<and>
      (render (updateRecipe s recipe) s = s \<longleftrightarrow> set (recipe_tags recipe) \<subseteq> set (tags s))) \<and>
   ((\<forall>b \<in> set (books s). book_id b \<noteq> bookId) \<longrightarrow>
      render (fst (deleteBook bookId)) s =
        s\<lparr>recipes := map (\<lambda>r. if recipe_bookId r = Some bookId
                              then r\<lparr>recipe_bookId := None\<rparr> else r) (recipes s)\<rparr> \<and>
      (render (fst (deleteBook bookId)) s = s \<longleftrightarrow>
         Some bookId \<notin> set (map recipe_bookId (recipes s))))"
proof (intro conjI impI)
  assume "\<forall>b \<in> set (books s). book_id b \<noteq> book_id book"
  then show "render (updateBook book) s = s"
    by (simp add: updateBook_def render_def map_id_noop)
next
  assume a: "\<forall>r \<in> set (recipes s). recipe_id r \<noteq> recipeId"
  then show "render (deleteRecipe recipeId) s = s"
    by (simp add: deleteRecipe_def render_def filter_id_noop)
  from a show "render (toggleFavorite recipeId) s = s"
    by (simp add: toggleFavorite_def render_def toggle_noop)
next
  assume "\<forall>c \<in> set (collections s). collection_id c \<noteq> collection_id coll"
  then show "render (updateCollection coll) s = s"
    by (simp add: updateCollection_def render_def map_id_noop)
next
  assume "\<forall>c \<in> set (collections s). collection_id c \<noteq> collectionId"
  then show "render (deleteCollection collectionId) s = s"
    by (simp add: deleteCollection_def render_def filter_id_noop)
next
  assume a: "\<forall>r \<in> set (recipes s). recipe_id r \<noteq> recipe_id recipe"
  then show eq: "render (updateRecipe s recipe) s =
        s\<lparr>tags := tags s @ filter (\<lambda>tag. tag \<notin> set (tags s)) (recipe_tags recipe)\<rparr>"
    by (simp add: render_updateRecipe map_id_noop)
  show "render (updateRecipe s recipe) s = s \<longleftrightarrow> set (recipe_tags recipe) \<subseteq> set (tags s)"
    by (auto simp: eq store_tags_eq filter_empty_conv)
next
  assume a: "\<forall>b \<in> set (books s). book_id b \<noteq> bookId"
  then show eq: "render (fst (deleteBook bookId)) s =
        s\<lparr>recipes := map (\<lambda>r. if recipe_bookId r = Some bookId
                              then r\<lparr>recipe_bookId := None\<rparr> else r) (recipes s)\<rparr>"
    by (simp add: render_deleteBook filter_id_noop)
  show "render (fst (deleteBook bookId)) s = s \<longleftrightarrow>
         Some bookId \<notin> set (map recipe_bookId (recipes s))"
    by (force simp: eq store_recipes_eq detach_noop_iff)
qed

theorem not_found_effects_witness:
  "render (updateBook (duplicate_book\<lparr>book_id := ascii ''99''\<rparr>)) initial_store = initial_store \<and>
   render (deleteRecipe (ascii ''99'')) initial_store = initial_store \<and>
   render (toggleFavorite (ascii ''99'')) initial_store = initial_store \<and>
   render (updateCollection ghost_collection) initial_store = initial_store \<and>
   render (deleteCollection (ascii ''99'')) initial_store = initial_store \<and>
   render (updateRecipe initial_store ghost_recipe) initial_store =
     initial_store\<lparr>tags := tags initial_store @ [ascii ''hiver'']\<rparr> \<and>
   render (fst (deleteBook (ascii ''99''))) initial_store = initial_store"
proof -
  have nb: "\<forall>b \<in> set (books initial_store).
      book_id b \<noteq> book_id (duplicate_book\<lparr>book_id := ascii ''99''\<rparr>)"
    "\<forall>b \<in> set (books initial_store). book_id b \<noteq> ascii ''99''"
    by (simp_all add: initial_store_def INITIAL_BOOKS_def ascii_def)
  have nr: "\<forall>r \<in> set (recipes initial_store). recipe_id r \<noteq> ascii ''99''"
    "\<forall>r \<in> set (recipes initial_store). recipe_id r \<noteq> recipe_id ghost_recipe"
    by (simp_all add: initial_store_def INITIAL_RECIPES_def ghost_recipe_def ascii_def)
  have nc: "\<forall>c \<in> set (collections initial_store). collection_id c \<noteq> ascii ''99''"
    "\<forall>c \<in> set (collections initial_store).
       collection_id c \<noteq> collection_id ghost_collection"
    by (simp_all add: initial_store_def INITIAL_COLLECTIONS_def ghost_collection_def ascii_def)
  have unseen: "filter (\<lambda>tag. tag \<notin> set (tags initial_store)) (recipe_tags ghost_recipe) =
      [ascii ''hiver'']"
    by (simp add: initial_store_def INITIAL_TAGS_def ghost_recipe_def ascii_def)
  have unref: "Some (ascii ''99'') \<notin> set (map recipe_bookId (recipes initial_store))"
    by (simp add: initial_store_def INITIAL_RECIPES_def ascii_def)
  note eff = not_found_effects [of initial_store "duplicate_book\<lparr>book_id := ascii ''99''\<rparr>"
      "ascii ''99''" ghost_collection "ascii ''99''" ghost_recipe "ascii ''99''"]
  from eff nb(1) have b: "render (updateBook (duplicate_book\<lparr>book_id := ascii ''99''\<rparr>))
      initial_store = initial_store"
    by blast
  from eff nr(1) have r: "render (deleteRecipe (ascii ''99'')) initial_store = initial_store"
    "render (toggleFavorite (ascii ''99'')) initial_store = initial_store"
    by blast+
  from eff nc have c: "render (updateCollection ghost_collection) initial_store = initial_store"
    "render (deleteCollection (ascii ''99'')) initial_store = initial_store"
    by blast+
  from eff nr(2) have "render (updateRecipe initial_store ghost_recipe) initial_store =
     initial_store\<lparr>tags := tags initial_store @
       filter (\<lambda>tag. tag \<notin> set (tags initial_store)) (recipe_tags ghost_recipe)\<rparr>"
    by blast
  then have u: "render (updateRecipe initial_store ghost_recipe) initial_store =
     initial_store\<lparr>tags := tags initial_store @ [ascii ''hiver'']\<rparr>"
    by (simp only: unseen)
  from eff nb(2) unref
  have d: "render (fst (deleteBook (ascii ''99''))) initial_store = initial_store"
    by blast
  from b r c u d show ?thesis by blast
qed

text \<open>
  Claim C2 as written fails. No recipe of the initial store has the id 99, and
  \<open>updateRecipe\<close> with a recipe of that id and an unseen tag changes the state (the tag
  registry); no book of the store with the dangling reference has the id 9, and
  \<open>deleteBook\<close> of that id changes the state (the recipe that refers to it).
\<close>

theorem not_found_noop_counterexample:
  "recipe_id ghost_recipe = ascii ''99'' \<and>
   ascii ''99'' \<notin> set (map recipe_id (recipes initial_store)) \<and>
   render (updateRecipe initial_store ghost_recipe) initial_store \<noteq> initial_store \<and>
   ascii ''9'' \<notin> set (map book_id (books orphan_store)) \<and>
   render (fst (deleteBook (ascii ''9''))) orphan_store \<noteq> orphan_store"
proof (intro conjI)
  show "recipe_id ghost_recipe = ascii ''99''"
    by (simp add: ghost_recipe_def)
  show "ascii ''99'' \<notin> set (map recipe_id (recipes initial_store))"
    by (simp add: initial_store_def INITIAL_RECIPES_def ascii_def)
  have "tags (render (updateRecipe initial_store ghost_recipe) initial_store) \<noteq>
      tags initial_store"
    by (simp add: render_updateRecipe ghost_recipe_def initial_store_def INITIAL_TAGS_def
        ascii_def)
  then show "render (updateRecipe initial_store ghost_recipe) initial_store \<noteq> initial_store"
    by auto
  have orphan: "orphan_store =
      initial_store\<lparr>recipes := recipes initial_store @ [orphan_recipe],
        tags := tags initial_store @
          filter (\<lambda>tag. tag \<notin> set (tags initial_store)) (recipe_tags orphan_recipe)\<rparr>"
    unfolding orphan_store_def by (rule render_addRecipe)
  show "ascii ''9'' \<notin> set (map book_id (books orphan_store))"
    unfolding orphan
    by (simp add: initial_store_def INITIAL_BOOKS_def ascii_def)
  have "Some (ascii ''9'') \<in> set (map recipe_bookId (recipes orphan_store))"
    unfolding orphan by (simp add: orphan_recipe_def)
  moreover have "Some (ascii ''9'') \<notin>
      set (map recipe_bookId (recipes (render (fst (deleteBook (ascii ''9''))) orphan_store)))"
    by (auto simp: render_deleteBook split: if_splits)
  ultimately show "render (fst (deleteBook (ascii ''9''))) orphan_store \<noteq> orphan_store"
    by auto
qed

subsection \<open>Unique ids\<close>

lemma render_addBook: "render (addBook b) s = s\<lparr>books := books s @ [b]\<rparr>"
  by (simp add: addBook_def render_def)

lemma render_addCollection:
  "render (addCollection c) s = s\<lparr>collections := collections s @ [c]\<rparr>"
  by (simp add: addCollection_def render_def)

lemma unique_ids_run_add: "unique_ids (run_add a s) \<longleftrightarrow> unique_ids s \<and> fresh_id a s"
  by (cases a) (auto simp: unique_ids_def render_addBook render_addCollection render_addRecipe)

lemma unique_ids_run_adds: "unique_ids (run_adds ops s) \<longleftrightarrow> unique_ids s \<and> fresh_ids ops s"
proof (induction ops arbitrary: s)
  case Nil
  show ?case by (simp add: run_adds_def)
next
  case (Cons a ops)
  have "run_adds (a # ops) s = run_adds ops (run_add a s)"
    by (simp add: run_adds_def)
  then show ?case
    by (auto simp: Cons.IH unique_ids_run_add)
qed

lemma unique_ids_initial: "unique_ids initial_store"
  by (simp add: unique_ids_def initial_store_def INITIAL_BOOKS_def INITIAL_RECIPES_def
      INITIAL_COLLECTIONS_def ascii_def)

text \<open>
  Claim C9, as amended. The store assigns no id and checks none: the caller brings it.
  After a sequence of add operations from the initial store, no two records of one kind
  share an id if and only if every add operation brought an id that no record of its kind
  had at that moment.
\<close>

theorem add_uniqueness:
  "unique_ids (run_adds ops initial_store) \<longleftrightarrow> fresh_ids ops initial_store"
  by (simp add: unique_ids_run_adds unique_ids_initial)

theorem add_uniqueness_witness:
  "fresh_ids [AddBook (duplicate_book\<lparr>book_id := ascii ''5''\<rparr>), AddRecipe ghost_recipe] initial_store \<and>
   unique_ids (run_adds [AddBook (duplicate_book\<lparr>book_id := ascii ''5''\<rparr>), AddRecipe ghost_recipe] initial_store)"
proof -
  have "fresh_ids [AddBook (duplicate_book\<lparr>book_id := ascii ''5''\<rparr>), AddRecipe ghost_recipe] initial_store"
    by (simp add: addBook_def render_def render_addRecipe duplicate_book_def ghost_recipe_def
        initial_store_def INITIAL_BOOKS_def INITIAL_RECIPES_def ascii_def)
  with add_uniqueness [of "[AddBook (duplicate_book\<lparr>book_id := ascii ''5''\<rparr>), AddRecipe ghost_recipe]"]
  show ?thesis by blast
qed

text \<open>
  Claim C9 as written fails: after \<open>addBook\<close> of a book with the id 1 in the initial store,
  the first and the fifth book are two different records with that id.
\<close>

theorem add_uniqueness_counterexample:
  "books (run_adds [AddBook duplicate_book] initial_store) ! 0 \<noteq>
     books (run_adds [AddBook duplicate_book] initial_store) ! 4 \<and>
   book_id (books (run_adds [AddBook duplicate_book] initial_store) ! 0) =
     book_id (books (run_adds [AddBook duplicate_book] initial_store) ! 4) \<and>
   length (books (run_adds [AddBook duplicate_book] initial_store)) = 5 \<and>
   \<not> unique_ids (run_adds [AddBook duplicate_book] initial_store)"
proof -
  have bs: "books (run_adds [AddBook duplicate_book] initial_store) =
      INITIAL_BOOKS @ [duplicate_book]"
    by (simp add: run_adds_def render_addBook initial_store_def)
  have first: "(INITIAL_BOOKS @ [duplicate_book]) ! 0 = INITIAL_BOOKS ! 0"
    and last: "(INITIAL_BOOKS @ [duplicate_book]) ! 4 = duplicate_book"
    and len: "length (INITIAL_BOOKS @ [duplicate_book]) = 5"
    by (simp_all add: INITIAL_BOOKS_def nth_append)
  have titles: "book_title (INITIAL_BOOKS ! 0) \<noteq> book_title duplicate_book"
    and ids: "book_id (INITIAL_BOOKS ! 0) = book_id duplicate_book"
    by (simp_all add: INITIAL_BOOKS_def duplicate_book_def ascii_def)
  from titles have differ: "INITIAL_BOOKS ! 0 \<noteq> duplicate_book"
    by auto
  have dup: "\<not> distinct (map book_id (INITIAL_BOOKS @ [duplicate_book]))"
    by (simp add: INITIAL_BOOKS_def duplicate_book_def ascii_def)
  then have "\<not> unique_ids (run_adds [AddBook duplicate_book] initial_store)"
    by (simp add: unique_ids_def bs)
  with differ ids len show ?thesis
    by (simp add: bs first last)
qed

subsection \<open>Category suggestion\<close>

text \<open>
  The sort, for a comparator \<open>b.key - a.key\<close>: it keeps the length, sorts by descending
  key, keeps the order of elements of equal key, and leaves a sorted list as it is.
\<close>

lemma length_insertBy: "length (insertBy cmp x ys) = Suc (length ys)"
  by (induction ys) simp_all

lemma length_jsSort: "length (jsSort cmp xs) = length xs"
  by (induction xs) (simp_all add: jsSort_def length_insertBy)

lemma set_insertBy: "set (insertBy cmp x ys) = insert x (set ys)"
  by (induction ys) auto

lemma sorted_insertBy:
  fixes key :: "'a \<Rightarrow> rat"
  assumes "sorted_wrt (\<lambda>a b. key b \<le> key a) ys"
  shows "sorted_wrt (\<lambda>a b. key b \<le> key a) (insertBy (\<lambda>a b. key b - key a) x ys)"
  using assms by (induction ys) (auto simp: set_insertBy)

lemma jsSort_sorted:
  fixes key :: "'a \<Rightarrow> rat"
  shows "sorted_wrt (\<lambda>a b. key b \<le> key a) (jsSort (\<lambda>a b. key b - key a) xs)"
  by (induction xs) (simp_all add: jsSort_def sorted_insertBy)

lemma filter_insertBy:
  fixes key :: "'a \<Rightarrow> rat"
  shows "filter (\<lambda>y. key y = k) (insertBy (\<lambda>a b. key b - key a) x ys) =
     (if key x = k then x # filter (\<lambda>y. key y = k) ys else filter (\<lambda>y. key y = k) ys)"
  by (induction ys) auto

lemma jsSort_stable:
  fixes key :: "'a \<Rightarrow> rat"
  shows "filter (\<lambda>y. key y = k) (jsSort (\<lambda>a b. key b - key a) xs) = filter (\<lambda>y. key y = k) xs"
  by (induction xs) (simp_all add: jsSort_def filter_insertBy)

lemma jsSort_sorted_id:
  fixes key :: "'a \<Rightarrow> rat"
  assumes "sorted_wrt (\<lambda>a b. key b \<le> key a) xs"
  shows "jsSort (\<lambda>a b. key b - key a) xs = xs"
  using assms
proof (induction xs)
  case Nil
  show ?case by (simp add: jsSort_def)
next
  case (Cons x xs)
  then have tl: "jsSort (\<lambda>a b. key b - key a) xs = xs" by simp
  have "insertBy (\<lambda>a b. key b - key a) x xs = x # xs"
    using Cons.prems by (cases xs) simp_all
  with tl show ?case by (simp add: jsSort_def)
qed

lemma sorted_baseline: "sorted_wrt (\<lambda>a b. confidence b \<le> confidence a) baseline"
  by (simp add: baseline_def)

lemma sorted_override: "sorted_wrt (\<lambda>a b. confidence b \<le> confidence a) (override cat)"
  by (simp add: override_def baseline_def)

text \<open>
  Claim C5. For every title, author and pseudonym, \<open>suggestBookCategory\<close> returns the
  baseline with slot 0 overwritten by Patisserie at 0.90 when the title in lower case
  contains patisserie, dessert or gateau, else by Vegetarien at 0.90 when it contains
  vege or vegan, else by Cuisine rapide at 0.90 when it contains rapide or simple, and
  else the baseline itself; the list has three elements and is sorted by descending
  confidence. A title with Patisserie in it gives a list headed by Patisserie at 0.90,
  and a plain title gives the baseline. (The accents of the source's words are left out of
  this text; the statement has them.)
\<close>

theorem suggestBookCategory_override:
  "suggestBookCategory title author pseudonym =
     (if sublist (ascii ''p'' @ [226] @ ascii ''tisserie'') (toLowerCase title) \<or>
         sublist (ascii ''dessert'') (toLowerCase title) \<or>
         sublist (ascii ''g'' @ [226] @ ascii ''teau'') (toLowerCase title)
      then override (ascii ''P'' @ [226] @ ascii ''tisserie'')
      else if sublist (ascii ''v'' @ [233] @ ascii ''g'' @ [233]) (toLowerCase title) \<or>
              sublist (ascii ''vegan'') (toLowerCase title)
      then override (ascii ''V'' @ [233] @ ascii ''g'' @ [233] @ ascii ''tarien'')
      else if sublist (ascii ''rapide'') (toLowerCase title) \<or>
              sublist (ascii ''simple'') (toLowerCase title)
      then override (ascii ''Cuisine rapide'')
      else baseline) \<and>
   length (suggestBookCategory title author pseudonym) = 3 \<and>
   sorted_wrt (\<lambda>a b. confidence b \<le> confidence a) (suggestBookCategory title author pseudonym) \<and>
   suggestBookCategory (ascii ''La P'' @ [226] @ ascii ''tisserie Moderne'') author pseudonym =
     [\<lparr>category = ascii ''P'' @ [226] @ ascii ''tisserie'', confidence = 0.9\<rparr>,
      \<lparr>category = ascii ''P'' @ [226] @ ascii ''tisserie'', confidence = 0.5\<rparr>,
      \<lparr>category = ascii ''Gastronomie'', confidence = 0.4\<rparr>] \<and>
   suggestBookCategory (ascii ''Plain Book'') author pseudonym =
     [\<lparr>category = ascii ''Cuisine g'' @ [233] @ ascii ''n'' @ [233] @ ascii ''rale'', confidence = 0.7\<rparr>,
      \<lparr>category = ascii ''P'' @ [226] @ ascii ''tisserie'', confidence = 0.5\<rparr>,
      \<lparr>category = ascii ''Gastronomie'', confidence = 0.4\<rparr>]"
proof (intro conjI)
  have unsorted: "suggestBookCategory t author pseudonym =
     jsSort (\<lambda>a b. confidence b - confidence a)
     (if sublist (ascii ''p'' @ [226] @ ascii ''tisserie'') (toLowerCase t) \<or>
         sublist (ascii ''dessert'') (toLowerCase t) \<or>
         sublist (ascii ''g'' @ [226] @ ascii ''teau'') (toLowerCase t)
      then override (ascii ''P'' @ [226] @ ascii ''tisserie'')
      else if sublist (ascii ''v'' @ [233] @ ascii ''g'' @ [233]) (toLowerCase t) \<or>
              sublist (ascii ''vegan'') (toLowerCase t)
      then override (ascii ''V'' @ [233] @ ascii ''g'' @ [233] @ ascii ''tarien'')
      else if sublist (ascii ''rapide'') (toLowerCase t) \<or>
              sublist (ascii ''simple'') (toLowerCase t)
      then override (ascii ''Cuisine rapide'')
      else baseline)" for t
    unfolding suggestBookCategory_def Let_def str_includes_sublist override_def baseline_def
    by (rule refl)
  show eq: "suggestBookCategory title author pseudonym =
     (if sublist (ascii ''p'' @ [226] @ ascii ''tisserie'') (toLowerCase title) \<or>
         sublist (ascii ''dessert'') (toLowerCase title) \<or>
         sublist (ascii ''g'' @ [226] @ ascii ''teau'') (toLowerCase title)
      then override (ascii ''P'' @ [226] @ ascii ''tisserie'')
      else if sublist (ascii ''v'' @ [233] @ ascii ''g'' @ [233]) (toLowerCase title) \<or>
              sublist (ascii ''vegan'') (toLowerCase title)
      then override (ascii ''V'' @ [233] @ ascii ''g'' @ [233] @ ascii ''tarien'')
      else if sublist (ascii ''rapide'') (toLowerCase title) \<or>
              sublist (ascii ''simple'') (toLowerCase title)
      then override (ascii ''Cuisine rapide'')
      else baseline)"
    unfolding unsorted
    by (simp only: if_distrib [of "jsSort (\<lambda>a b. confidence b - confidence a)"]
        jsSort_sorted_id [OF sorted_override] jsSort_sorted_id [OF sorted_baseline])
  show "length (suggestBookCategory title author pseudonym) = 3"
    unfolding unsorted length_jsSort by (simp add: override_def baseline_def)
  show "sorted_wrt (\<lambda>a b. confidence b \<le> confidence a) (suggestBookCategory title author pseudonym)"
    unfolding unsorted by (rule jsSort_sorted)
  have hit: "str_includes (toLowerCase (ascii ''La P'' @ [226] @ ascii ''tisserie Moderne''))
      (ascii ''p'' @ [226] @ ascii ''tisserie'')"
    by (simp add: toLowerCase_def lowerUnit_def ascii_def)
  show "suggestBookCategory (ascii ''La P'' @ [226] @ ascii ''tisserie Moderne'') author pseudonym =
     [\<lparr>category = ascii ''P'' @ [226] @ ascii ''tisserie'', confidence = 0.9\<rparr>,
      \<lparr>category = ascii ''P'' @ [226] @ ascii ''tisserie'', confidence = 0.5\<rparr>,
      \<lparr>category = ascii ''Gastronomie'', confidence = 0.4\<rparr>]"
    unfolding suggestBookCategory_def Let_def
    by (simp only: hit simp_thms if_True) (simp add: jsSort_def)
  have miss: "\<not> str_includes (toLowerCase (ascii ''Plain Book'')) (ascii ''p'' @ [226] @ ascii ''tisserie'')"
    "\<not> str_includes (toLowerCase (ascii ''Plain Book'')) (ascii ''dessert'')"
    "\<not> str_includes (toLowerCase (ascii ''Plain Book'')) (ascii ''g'' @ [226] @ ascii ''teau'')"
    "\<not> str_includes (toLowerCase (ascii ''Plain Book'')) (ascii ''v'' @ [233] @ ascii ''g'' @ [233])"
    "\<not> str_includes (toLowerCase (ascii ''Plain Book'')) (ascii ''vegan'')"
    "\<not> str_includes (toLowerCase (ascii ''Plain Book'')) (ascii ''rapide'')"
    "\<not> str_includes (toLowerCase (ascii ''Plain Book'')) (ascii ''simple'')"
    by (simp_all add: toLowerCase_def lowerUnit_def ascii_def)
  show "suggestBookCategory (ascii ''Plain Book'') author pseudonym =
     [\<lparr>category = ascii ''Cuisine g'' @ [233] @ ascii ''n'' @ [233] @ ascii ''rale'', confidence = 0.7\<rparr>,
      \<lparr>category = ascii ''P'' @ [226] @ ascii ''tisserie'', confidence = 0.5\<rparr>,
      \<lparr>category = ascii ''Gastronomie'', confidence = 0.4\<rparr>]"
    unfolding suggestBookCategory_def Let_def
    by (simp only: miss simp_thms if_False) (simp add: jsSort_def)
qed

subsection \<open>Searching books\<close>



lemma ci_substring_cong: "lower q' = lower q \<Longrightarrow> ci_substring lower q' s = ci_substring lower q s"
  by (simp add: ci_substring_def)











subsection \<open>Searching recipes\<close>





end
